theory Spec2Isabelle
  imports Main
begin

section \<open>Python values used by the backend\<close>

text \<open>
  Strings are \<^typ>\<open>string\<close> over ASCII: the case mappings and the white space test
  below are Python's on code points below 128, and leave every other character alone.
  A point in time (\<^verbatim>\<open>datetime\<close>, UTC) is its number of microseconds since the epoch;
  one request reads the clock once.
\<close>

type_synonym datetime = int

definition timedelta_hours :: "int \<Rightarrow> int" where
  "timedelta_hours h = h * 3600000000"

definition timedelta_minutes :: "int \<Rightarrow> int" where
  "timedelta_minutes m = m * 60000000"

definition timedelta_days :: "int \<Rightarrow> int" where
  "timedelta_days d = d * 86400000000"

definition lower_char :: "char \<Rightarrow> char" where
  "lower_char c =
     (case map_of (zip ''ABCDEFGHIJKLMNOPQRSTUVWXYZ'' ''abcdefghijklmnopqrstuvwxyz'') c of
        None \<Rightarrow> c
      | Some l \<Rightarrow> l)"

definition upper_char :: "char \<Rightarrow> char" where
  "upper_char c =
     (case map_of (zip ''abcdefghijklmnopqrstuvwxyz'' ''ABCDEFGHIJKLMNOPQRSTUVWXYZ'') c of
        None \<Rightarrow> c
      | Some u \<Rightarrow> u)"

definition isalpha :: "char \<Rightarrow> bool" where
  "isalpha c = (c \<in> set ''ABCDEFGHIJKLMNOPQRSTUVWXYZabcdefghijklmnopqrstuvwxyz'')"

definition isspace :: "char \<Rightarrow> bool" where
  "isspace c = (let n = (of_char c :: nat) in (9 \<le> n \<and> n \<le> 13) \<or> (28 \<le> n \<and> n \<le> 32))"

text \<open>\<^verbatim>\<open>s.lower()\<close>, \<^verbatim>\<open>s.strip()\<close> and \<^verbatim>\<open>s.title()\<close>.\<close>

definition lower :: "string \<Rightarrow> string" where
  "lower s = map lower_char s"

definition strip :: "string \<Rightarrow> string" where
  "strip s = rev (dropWhile isspace (rev (dropWhile isspace s)))"

fun title_from :: "bool \<Rightarrow> string \<Rightarrow> string" where
  "title_from inword [] = []"
| "title_from inword (c # cs) =
     (if isalpha c
      then (if inword then lower_char c else upper_char c) # title_from True cs
      else c # title_from False cs)"

definition title :: "string \<Rightarrow> string" where
  "title s = title_from False s"

text \<open>\<^verbatim>\<open>s.startswith(p)\<close>.\<close>

definition startswith :: "string \<Rightarrow> string \<Rightarrow> bool" where
  "startswith s p = (take (length p) s = p)"

text \<open>
  \<^verbatim>\<open>s.split(c, n)\<close> for a one-character separator: at most \<open>n\<close> cuts, from the left.
  \<^verbatim>\<open>s.split(c)\<close> cuts everywhere; a string has fewer separators than characters.
\<close>

fun split_max :: "char \<Rightarrow> nat \<Rightarrow> string \<Rightarrow> string list" where
  "split_max c 0 s = [s]"
| "split_max c (Suc n) s =
     (if c \<in> set s
      then takeWhile (\<lambda>x. x \<noteq> c) s # split_max c n (tl (dropWhile (\<lambda>x. x \<noteq> c) s))
      else [s])"

definition split :: "char \<Rightarrow> string \<Rightarrow> string list" where
  "split c s = split_max c (length s) s"

text \<open>\<^verbatim>\<open>str(n)\<close> for an integer.\<close>

function str_nat :: "nat \<Rightarrow> string" where
  "str_nat n =
     (if n < 10 then [''0123456789'' ! n]
      else str_nat (n div 10) @ [''0123456789'' ! (n mod 10)])"
  by pat_completeness auto
termination
  by (relation "measure id") auto

declare str_nat.simps [simp del]

definition str_int :: "int \<Rightarrow> string" where
  "str_int i = (if i < 0 then CHR ''-'' # str_nat (nat (- i)) else str_nat (nat i))"

section \<open>Signed tokens\<close>

text \<open>
  The values a token payload carries after JSON serialisation, and the payload itself:
  a Python dict, kept as an association list read with \<^const>\<open>map_of\<close>
  (\<^verbatim>\<open>payload.get(k)\<close>). Numbers are integers: the service issues no other, and
  timestamps stay within the range \<^verbatim>\<open>datetime\<close> represents.
\<close>

datatype json = JNull | JBool bool | JInt int | JStr string | JList "json list"

type_synonym payload = "(string \<times> json) list"

text \<open>
  The signed-token library (PyJWT) is an external dependency, not a file of the repository.
  Its \<^verbatim>\<open>encode\<close> and \<^verbatim>\<open>decode\<close> are modelled with HS256 as an ideal MAC: a token
  string is either no well-formed HS256 token at all, or a payload together with the key
  that signed it, and it verifies under exactly that key. \<^verbatim>\<open>encode\<close> turns the
  \<^verbatim>\<open>datetime\<close> claims into whole seconds (\<^verbatim>\<open>timegm(utctimetuple())\<close>).
\<close>

datatype token = Malformed string | Signed (signed_with: string) (claims: payload)

definition numeric_date :: "datetime \<Rightarrow> int" where
  "numeric_date t = t div 1000000"

definition jwt_encode :: "payload \<Rightarrow> string \<Rightarrow> token" where
  "jwt_encode p secret = Signed secret p"

datatype jwt_error =
    DecodeError
  | InvalidSignatureError
  | InvalidIssuedAtError
  | ImmatureSignatureError
  | ExpiredSignatureError

text \<open>
  The registered claims \<^verbatim>\<open>decode\<close> validates by default when they are present, in its
  order: \<^verbatim>\<open>iat\<close> and \<^verbatim>\<open>nbf\<close> must not lie in the future, \<^verbatim>\<open>exp\<close> must lie
  in the future (a token is expired from \<^verbatim>\<open>exp <= now\<close> on); each must be an integer.
\<close>

definition validate_iat :: "payload \<Rightarrow> datetime \<Rightarrow> jwt_error option" where
  "validate_iat p now =
     (case map_of p ''iat'' of
        None \<Rightarrow> None
      | Some (JInt iat) \<Rightarrow> if now < iat * 1000000 then Some ImmatureSignatureError else None
      | Some _ \<Rightarrow> Some InvalidIssuedAtError)"

definition validate_nbf :: "payload \<Rightarrow> datetime \<Rightarrow> jwt_error option" where
  "validate_nbf p now =
     (case map_of p ''nbf'' of
        None \<Rightarrow> None
      | Some (JInt nbf) \<Rightarrow> if now < nbf * 1000000 then Some ImmatureSignatureError else None
      | Some _ \<Rightarrow> Some DecodeError)"

definition validate_exp :: "payload \<Rightarrow> datetime \<Rightarrow> jwt_error option" where
  "validate_exp p now =
     (case map_of p ''exp'' of
        None \<Rightarrow> None
      | Some (JInt exp) \<Rightarrow> if exp * 1000000 \<le> now then Some ExpiredSignatureError else None
      | Some _ \<Rightarrow> Some DecodeError)"

definition jwt_decode :: "token \<Rightarrow> string \<Rightarrow> datetime \<Rightarrow> jwt_error + payload" where
  "jwt_decode tok secret now =
     (case tok of
        Malformed _ \<Rightarrow> Inl DecodeError
      | Signed k p \<Rightarrow>
          if k \<noteq> secret then Inl InvalidSignatureError
          else (case validate_iat p now of
                  Some e \<Rightarrow> Inl e
                | None \<Rightarrow>
                    (case validate_nbf p now of
                       Some e \<Rightarrow> Inl e
                     | None \<Rightarrow>
                         (case validate_exp p now of
                            Some e \<Rightarrow> Inl e
                          | None \<Rightarrow> Inr p))))"

subsection \<open>auth/google.py: issuing and verifying\<close>

text \<open>
  \<^verbatim>\<open>GoogleAuthService.create_jwt_token\<close>; \<open>families\<close> defaults to \<^verbatim>\<open>None\<close>, and
  \<^verbatim>\<open>families or []\<close> makes that the empty list.
\<close>

definition create_jwt_token ::
  "string \<Rightarrow> int \<Rightarrow> string \<Rightarrow> string list option \<Rightarrow> int \<Rightarrow> datetime \<Rightarrow> token" where
  "create_jwt_token jwt_secret user_id email families expires_hours now =
     (let expire = now + timedelta_hours expires_hours;
          payload =
            [(''user_id'', JInt user_id),
             (''email'', JStr email),
             (''families'', JList (map JStr (case families of None \<Rightarrow> [] | Some fs \<Rightarrow> fs))),
             (''iat'', JInt (numeric_date now)),
             (''exp'', JInt (numeric_date expire)),
             (''iss'', JStr ''family-genealogy-platform''),
             (''sub'', JStr (str_int user_id))]
      in jwt_encode payload jwt_secret)"

text \<open>
  \<^verbatim>\<open>GoogleAuthService.verify_jwt_token\<close>: both \<^verbatim>\<open>except\<close> branches return
  \<^verbatim>\<open>None\<close>; after a successful decode the expiry is compared once more, when it is
  truthy.
\<close>

definition verify_jwt_token :: "string \<Rightarrow> token \<Rightarrow> datetime \<Rightarrow> payload option" where
  "verify_jwt_token jwt_secret tok now =
     (case jwt_decode tok jwt_secret now of
        Inl _ \<Rightarrow> None
      | Inr payload \<Rightarrow>
          (case map_of payload ''exp'' of
             Some (JInt exp) \<Rightarrow>
               if exp \<noteq> 0 \<and> exp * 1000000 < now then None else Some payload
           | _ \<Rightarrow> Some payload))"

text \<open>\<^verbatim>\<open>GoogleAuthService.create_verification_token\<close>; \<open>user_id\<close> may be \<^verbatim>\<open>None\<close>.\<close>

definition create_verification_token ::
  "string \<Rightarrow> string \<Rightarrow> string \<Rightarrow> int option \<Rightarrow> datetime \<Rightarrow> token" where
  "create_verification_token jwt_secret email family_name user_id now =
     (let expire = now + timedelta_minutes 30;
          payload =
            [(''email'', JStr email),
             (''family_name'', JStr family_name),
             (''user_id'', (case user_id of None \<Rightarrow> JNull | Some i \<Rightarrow> JInt i)),
             (''type'', JStr ''email_verification''),
             (''iat'', JInt (numeric_date now)),
             (''exp'', JInt (numeric_date expire)),
             (''iss'', JStr ''family-genealogy-platform'')]
      in jwt_encode payload jwt_secret)"

text \<open>\<^verbatim>\<open>GoogleAuthService.verify_verification_token\<close>: decode, then the type tag.\<close>

definition verify_verification_token :: "string \<Rightarrow> token \<Rightarrow> datetime \<Rightarrow> payload option" where
  "verify_verification_token jwt_secret tok now =
     (case jwt_decode tok jwt_secret now of
        Inl _ \<Rightarrow> None
      | Inr payload \<Rightarrow>
          if map_of payload ''type'' \<noteq> Some (JStr ''email_verification'') then None
          else Some payload)"

section \<open>db/models.py: the access store\<close>

text \<open>
  One record per table row, a table as the list of its rows in insertion order. Rows are
  never deleted, so the next primary key is the row count plus one.
\<close>

record user =
  u_id :: int
  u_email :: string
  u_google_id :: string
  u_name :: string
  u_picture_url :: "string option"
  u_verified_at :: "datetime option"
  u_created_at :: datetime
  u_last_login :: "datetime option"
  u_is_active :: bool

record family_access =
  fa_id :: int
  fa_user_id :: int
  fa_family_name :: string
  fa_granted_at :: datetime
  fa_granted_by :: string
  fa_is_active :: bool

record user_consent =
  uc_id :: int
  uc_user_id :: int
  uc_family_name :: string
  uc_marketing_consent :: bool
  uc_terms_accepted :: bool
  uc_consent_version :: string
  uc_consented_at :: datetime
  uc_updated_at :: datetime
  uc_ip_address :: "string option"
  uc_user_agent :: "string option"

record family_invitation_code =
  ic_id :: int
  ic_code :: string
  ic_family_name :: string
  ic_created_by_user_id :: int
  ic_created_at :: datetime
  ic_expires_at :: "datetime option"
  ic_max_uses :: "int option"
  ic_current_uses :: int
  ic_is_active :: bool
  ic_description :: "string option"

record database =
  users :: "user list"
  family_access_rows :: "family_access list"
  user_consent_rows :: "user_consent list"
  family_invitation_codes :: "family_invitation_code list"

definition empty_database :: database where
  "empty_database =
     \<lparr>users = [], family_access_rows = [], user_consent_rows = [],
      family_invitation_codes = []\<rparr>"

text \<open>
  \<^verbatim>\<open>get_valid_families\<close> and \<^verbatim>\<open>is_valid_family\<close>; the argument is the value of the
  environment variable \<^verbatim>\<open>FAMILY_NAMES\<close>, when set.
\<close>

definition get_valid_families :: "string option \<Rightarrow> string list" where
  "get_valid_families env =
     (let family_names = (case env of None \<Rightarrow> ''bull,north,klingenberg,herrman'' | Some v \<Rightarrow> v)
      in map strip (split CHR '','' family_names))"

definition is_valid_family :: "string option \<Rightarrow> string \<Rightarrow> bool" where
  "is_valid_family env family_name = (family_name \<in> set (get_valid_families env))"

text \<open>
  The store's own constraints: a foreign key to \<^verbatim>\<open>users.id\<close> must name a row, and the
  unique columns admit no second row with the same value. A write that breaks one raises
  (\<^verbatim>\<open>IntegrityError\<close>) and stores nothing: the result \<open>None\<close>.
\<close>

definition user_exists :: "database \<Rightarrow> int \<Rightarrow> bool" where
  "user_exists db user_id = (\<exists>u \<in> set (users db). u_id u = user_id)"

definition get_user_by_email :: "database \<Rightarrow> string \<Rightarrow> user option" where
  "get_user_by_email db email = find (\<lambda>u. u_email u = email) (users db)"

definition get_user_by_google_id :: "database \<Rightarrow> string \<Rightarrow> user option" where
  "get_user_by_google_id db google_id = find (\<lambda>u. u_google_id u = google_id) (users db)"

definition create_user ::
  "string \<Rightarrow> string \<Rightarrow> string \<Rightarrow> string option \<Rightarrow> datetime \<Rightarrow> database
     \<Rightarrow> (user \<times> database) option" where
  "create_user email google_id name picture_url now db =
     (if (\<exists>u \<in> set (users db). u_email u = email \<or> u_google_id u = google_id) then None
      else
        let user = \<lparr>u_id = int (length (users db)) + 1, u_email = email,
                    u_google_id = google_id, u_name = name, u_picture_url = picture_url,
                    u_verified_at = None, u_created_at = now, u_last_login = None,
                    u_is_active = True\<rparr>
        in Some (user, db\<lparr>users := users db @ [user]\<rparr>))"

definition grant_family_access ::
  "int \<Rightarrow> string \<Rightarrow> string \<Rightarrow> datetime \<Rightarrow> database \<Rightarrow> (family_access \<times> database) option" where
  "grant_family_access user_id family_name granted_by now db =
     (if \<not> user_exists db user_id then None
      else
        let access = \<lparr>fa_id = int (length (family_access_rows db)) + 1, fa_user_id = user_id,
                      fa_family_name = family_name, fa_granted_at = now,
                      fa_granted_by = granted_by, fa_is_active = True\<rparr>
        in Some (access, db\<lparr>family_access_rows := family_access_rows db @ [access]\<rparr>))"

definition get_user_families :: "database \<Rightarrow> int \<Rightarrow> string list" where
  "get_user_families db user_id =
     (let access_records =
            filter (\<lambda>r. fa_user_id r = user_id \<and> fa_is_active r) (family_access_rows db)
      in map fa_family_name access_records)"

text \<open>\<^verbatim>\<open>DatabaseManager.record_consent\<close> (the route of the same name is further down).\<close>

definition db_record_consent ::
  "int \<Rightarrow> string \<Rightarrow> bool \<Rightarrow> bool \<Rightarrow> string option \<Rightarrow> string option \<Rightarrow> datetime \<Rightarrow> database
     \<Rightarrow> (user_consent \<times> database) option" where
  "db_record_consent user_id family_name marketing_consent terms_accepted ip_address
       user_agent now db =
     (if \<not> user_exists db user_id then None
      else
        let consent = \<lparr>uc_id = int (length (user_consent_rows db)) + 1, uc_user_id = user_id,
                       uc_family_name = family_name, uc_marketing_consent = marketing_consent,
                       uc_terms_accepted = terms_accepted, uc_consent_version = ''1.0'',
                       uc_consented_at = now, uc_updated_at = now,
                       uc_ip_address = ip_address, uc_user_agent = user_agent\<rparr>
        in Some (consent, db\<lparr>user_consent_rows := user_consent_rows db @ [consent]\<rparr>))"

text \<open>
  \<^verbatim>\<open>create_invitation_code\<close>; \<open>random_part\<close> is the eight characters drawn from
  \<^verbatim>\<open>secrets.choice\<close>. \<^verbatim>\<open>if expires_days:\<close> is false for \<^verbatim>\<open>None\<close> and for 0.
\<close>

definition create_invitation_code ::
  "int \<Rightarrow> string \<Rightarrow> string option \<Rightarrow> int option \<Rightarrow> int option \<Rightarrow> string \<Rightarrow> datetime \<Rightarrow> database
     \<Rightarrow> (string \<times> database) option" where
  "create_invitation_code user_id family_name description max_uses expires_days random_part
       now db =
     (let full_code = lower family_name @ random_part;
          expires_at =
            (case expires_days of
               None \<Rightarrow> None
             | Some d \<Rightarrow> if d \<noteq> 0 then Some (now + timedelta_days d) else None);
          invitation =
            \<lparr>ic_id = int (length (family_invitation_codes db)) + 1, ic_code = full_code,
             ic_family_name = family_name, ic_created_by_user_id = user_id,
             ic_created_at = now, ic_expires_at = expires_at, ic_max_uses = max_uses,
             ic_current_uses = 0, ic_is_active = True, ic_description = description\<rparr>
      in if \<not> user_exists db user_id then None
         else if (\<exists>r \<in> set (family_invitation_codes db). ic_code r = full_code) then None
         else Some (full_code,
                db\<lparr>family_invitation_codes := family_invitation_codes db @ [invitation]\<rparr>))"

definition get_invitation_code :: "database \<Rightarrow> string \<Rightarrow> family_invitation_code option" where
  "get_invitation_code db code =
     find (\<lambda>r. ic_code r = code \<and> ic_is_active r) (family_invitation_codes db)"

text \<open>
  \<^verbatim>\<open>use_invitation_code\<close>. The two guards test truthiness first:
  \<^verbatim>\<open>invitation.expires_at and ...\<close> skips a missing expiry, and
  \<^verbatim>\<open>invitation.max_uses and ...\<close> skips a missing limit and a limit of 0 alike.
  The grant commits in a session of its own; the counter is then written back to the
  row the query returned. The result is \<open>None\<close> when the grant raises.
\<close>

definition use_invitation_code ::
  "string \<Rightarrow> int \<Rightarrow> datetime \<Rightarrow> database \<Rightarrow> (bool \<times> database) option" where
  "use_invitation_code code user_id now db =
     (case find (\<lambda>r. ic_code r = code \<and> ic_is_active r) (family_invitation_codes db) of
        None \<Rightarrow> Some (False, db)
      | Some invitation \<Rightarrow>
          if (case ic_expires_at invitation of None \<Rightarrow> False | Some e \<Rightarrow> e < now)
          then Some (False, db)
          else if (case ic_max_uses invitation of
                     None \<Rightarrow> False
                   | Some m \<Rightarrow> m \<noteq> 0 \<and> ic_current_uses invitation \<ge> m)
          then Some (False, db)
          else
            (case grant_family_access user_id (ic_family_name invitation)
                    (''invitation_'' @ code) now db of
               None \<Rightarrow> None
             | Some (_, db1) \<Rightarrow>
                 Some (True,
                   db1\<lparr>family_invitation_codes :=
                     map (\<lambda>r. if ic_id r = ic_id invitation
                              then r\<lparr>ic_current_uses := ic_current_uses invitation + 1\<rparr>
                              else r)
                       (family_invitation_codes db1)\<rparr>)))"

definition get_user_invitation_codes :: "database \<Rightarrow> int \<Rightarrow> family_invitation_code list" where
  "get_user_invitation_codes db user_id =
     filter (\<lambda>r. ic_created_by_user_id r = user_id \<and> ic_is_active r)
       (family_invitation_codes db)"

section \<open>auth/google.py: the identity exchange\<close>

text \<open>
  \<^verbatim>\<open>exchange_code_for_tokens\<close>. The provider is a parameter: \<open>idp code\<close> is the verified
  identity the token endpoint and the ID token check yield for \<open>code\<close>, or \<open>None\<close> when
  any of them raises. The state is cut at its first colon before the provider is asked;
  every exception ends in the result \<^verbatim>\<open>{"success": False}\<close>, here \<open>None\<close>.
\<close>

record user_info =
  ui_google_id :: string
  ui_email :: string
  ui_name :: string
  ui_picture :: "string option"
  ui_email_verified :: bool

record exchange_result =
  xr_user_info :: user_info
  xr_family_name :: "string option"
  xr_state :: string

definition exchange_code_for_tokens ::
  "(string \<Rightarrow> user_info option) \<Rightarrow> string \<Rightarrow> string \<Rightarrow> exchange_result option" where
  "exchange_code_for_tokens idp code state =
     (case (if CHR '':'' \<in> set state
            then (case split_max CHR '':'' 1 state of
                    [family_name, original_state] \<Rightarrow> Some (Some family_name, original_state)
                  | _ \<Rightarrow> None)
            else Some (None, state)) of
        None \<Rightarrow> None
      | Some (family_name, original_state) \<Rightarrow>
          (case idp code of
             None \<Rightarrow> None
           | Some info \<Rightarrow>
               Some \<lparr>xr_user_info = info, xr_family_name = family_name,
                     xr_state = original_state\<rparr>))"

text \<open>\<^verbatim>\<open>get_authorization_url\<close>: only the state it sends to the provider is modelled.\<close>

definition authorization_state :: "string \<Rightarrow> string \<Rightarrow> string" where
  "authorization_state family_name state = family_name @ '':'' @ state"

section \<open>main.py: the flow controller\<close>

text \<open>
  A response is a redirect (with the session cookie it sets, if any), a JSON body (with
  the magic-link token its \<^verbatim>\<open>magic_link\<close> URL ends in, if any) or an HTTP error with
  its status code. Inside a \<^verbatim>\<open>try\<close> block a raised exception is a value: an
  \<^verbatim>\<open>HTTPException\<close> with its status, or any other Python exception.
\<close>

datatype response =
    RedirectResponse (url: string) (set_cookie: "token option")
  | JSONResponse (body: payload) (link_token: "token option")
  | HTTPException (status_code: nat)

datatype raised = HTTPExc nat | PyException

text \<open>
  \<^verbatim>\<open>get_current_user\<close>: the cookie holds \<^verbatim>\<open>"Bearer <token>"\<close>; the prefix is cut off
  and the token verified as a session token.
\<close>

definition get_current_user :: "string \<Rightarrow> token option \<Rightarrow> datetime \<Rightarrow> payload option" where
  "get_current_user jwt_secret authorization now =
     (case authorization of
        None \<Rightarrow> None
      | Some tok \<Rightarrow> verify_jwt_token jwt_secret tok now)"

text \<open>\<^verbatim>\<open>start_signup\<close>: the state it returns, and the state the authorization URL carries.\<close>

definition start_signup :: "string \<Rightarrow> string \<Rightarrow> string \<times> string" where
  "start_signup email nonce =
     (let auth_state = ''signup:'' @ email @ '':'' @ nonce
      in (auth_state, authorization_state ''signup'' auth_state))"

text \<open>
  The lines \<^verbatim>\<open>user.verified_at = now; user.last_login = now; session.add(user)\<close> and
  the later \<^verbatim>\<open>session.commit()\<close>: the row with the user's primary key is updated.
\<close>

definition stamp_user :: "int \<Rightarrow> datetime \<Rightarrow> database \<Rightarrow> database" where
  "stamp_user user_id now db =
     db\<lparr>users :=
          map (\<lambda>u. if u_id u = user_id
                   then u\<lparr>u_verified_at := Some now, u_last_login := Some now\<rparr>
                   else u)
            (users db)\<rparr>"

text \<open>
  \<^verbatim>\<open>oauth_callback\<close>: the body of its \<^verbatim>\<open>try\<close>, then the handler, which turns every
  exception (the body's own \<^verbatim>\<open>HTTPException\<close>s too) into status 500.
\<close>

definition oauth_callback_try ::
  "string \<Rightarrow> (string \<Rightarrow> user_info option) \<Rightarrow> string \<Rightarrow> string \<Rightarrow> datetime \<Rightarrow> database
     \<Rightarrow> (raised + response) \<times> database" where
  "oauth_callback_try jwt_secret idp code state now db =
     (case exchange_code_for_tokens idp code state of
        None \<Rightarrow> (Inl (HTTPExc 400), db)
      | Some result \<Rightarrow>
          let info = xr_user_info result in
          if \<not> ui_email_verified info then (Inl (HTTPExc 400), db)
          else
            (case xr_family_name result of
               None \<Rightarrow> (Inl PyException, db)
             | Some signup_info \<Rightarrow>
                 if \<not> startswith signup_info ''signup:'' then (Inl (HTTPExc 400), db)
                 else
                   (case split_max CHR '':'' 2 signup_info of
                      [_, original_email, _] \<Rightarrow>
                        if ui_email info \<noteq> original_email then (Inl (HTTPExc 400), db)
                        else
                          (case (case get_user_by_email db (ui_email info) of
                                   Some u \<Rightarrow> Some (u, db)
                                 | None \<Rightarrow>
                                     create_user (ui_email info) (ui_google_id info)
                                       (ui_name info) (ui_picture info) now db) of
                             None \<Rightarrow> (Inl PyException, db)
                           | Some (user, db1) \<Rightarrow>
                               let db2 = stamp_user (u_id user) now db1;
                                   user_families = get_user_families db2 (u_id user);
                                   jwt_token =
                                     create_jwt_token jwt_secret (u_id user) (u_email user)
                                       (Some user_families) 24 now;
                                   redirect_url =
                                     (case user_families of
                                        primary_family # _ \<Rightarrow>
                                          ''https://family.futurelink.zip/families/''
                                            @ primary_family
                                      | [] \<Rightarrow> ''https://family.futurelink.zip/select-family'')
                               in (Inr (RedirectResponse redirect_url (Some jwt_token)), db2))
                    | _ \<Rightarrow> (Inl PyException, db))))"

definition oauth_callback ::
  "string \<Rightarrow> (string \<Rightarrow> user_info option) \<Rightarrow> string \<Rightarrow> string \<Rightarrow> datetime \<Rightarrow> database
     \<Rightarrow> response \<times> database" where
  "oauth_callback jwt_secret idp code state now db =
     (case oauth_callback_try jwt_secret idp code state now db of
        (Inl _, db') \<Rightarrow> (HTTPException 500, db')
      | (Inr r, db') \<Rightarrow> (r, db'))"

text \<open>
  \<^verbatim>\<open>create_family_code\<close>. \<open>user\<close> is what \<^verbatim>\<open>get_current_user\<close> returned; \<open>random_part\<close>
  is the invitation code's random suffix and \<open>email_success\<close> the outcome the e-mail
  collaborator reports. Nothing here is in a \<^verbatim>\<open>try\<close>: an exception is status 500.
\<close>

definition create_family_code ::
  "string \<Rightarrow> string \<Rightarrow> string option \<Rightarrow> payload option \<Rightarrow> string \<Rightarrow> bool \<Rightarrow> datetime \<Rightarrow> database
     \<Rightarrow> response \<times> database" where
  "create_family_code jwt_secret request_family_name request_description user random_part
       email_success now db =
     (case user of
        None \<Rightarrow> (HTTPException 401, db)
      | Some current_user \<Rightarrow>
          let family_name = strip (lower request_family_name) in
          if family_name = [] \<or> length family_name < 2 then (HTTPException 400, db)
          else
            (case map_of current_user ''email'' of
               None \<Rightarrow> (HTTPException 500, db)
             | Some (JStr email) \<Rightarrow>
                 (case get_user_by_email db email of
                    None \<Rightarrow> (HTTPException 404, db)
                  | Some db_user \<Rightarrow>
                      (case create_invitation_code (u_id db_user) family_name
                              (Some (case request_description of
                                       None \<Rightarrow> title family_name @ '' Family''
                                     | Some d \<Rightarrow>
                                         if d = [] then title family_name @ '' Family'' else d))
                              None None random_part now db of
                         None \<Rightarrow> (HTTPException 500, db)
                       | Some (invitation_code, db1) \<Rightarrow>
                           (case grant_family_access (u_id db_user) family_name
                                   ''family_creator'' now db1 of
                              None \<Rightarrow> (HTTPException 500, db1)
                            | Some (_, db2) \<Rightarrow>
                                (JSONResponse
                                   [(''message'', JStr ''Family created successfully''),
                                    (''family_name'', JStr family_name),
                                    (''invitation_code'', JStr invitation_code),
                                    (''email_sent'', JBool email_success)]
                                   None,
                                 db2))))
             | Some _ \<Rightarrow> (HTTPException 404, db)))"

text \<open>\<^verbatim>\<open>join_family_with_code\<close>.\<close>

definition join_family_with_code ::
  "string \<Rightarrow> string \<Rightarrow> payload option \<Rightarrow> datetime \<Rightarrow> database \<Rightarrow> response \<times> database" where
  "join_family_with_code jwt_secret invitation_code user now db =
     (case user of
        None \<Rightarrow> (HTTPException 401, db)
      | Some current_user \<Rightarrow>
          (case map_of current_user ''email'' of
             None \<Rightarrow> (HTTPException 500, db)
           | Some (JStr email) \<Rightarrow>
               (case get_user_by_email db email of
                  None \<Rightarrow> (HTTPException 404, db)
                | Some db_user \<Rightarrow>
                    (case use_invitation_code invitation_code (u_id db_user) now db of
                       None \<Rightarrow> (HTTPException 500, db)
                     | Some (success, db1) \<Rightarrow>
                         if \<not> success then (HTTPException 400, db1)
                         else
                           (case get_invitation_code db1 invitation_code of
                              None \<Rightarrow> (HTTPException 500, db1)
                            | Some invitation \<Rightarrow>
                                (JSONResponse
                                   [(''message'', JStr ''Successfully joined family''),
                                    (''family_name'', JStr (ic_family_name invitation)),
                                    (''invitation_code'', JStr invitation_code)]
                                   (Some (create_verification_token jwt_secret email
                                            (ic_family_name invitation)
                                            (Some (u_id db_user)) now)),
                                 db1))))
           | Some _ \<Rightarrow> (HTTPException 404, db)))"

text \<open>
  \<^verbatim>\<open>magic_login\<close>: the body of its \<^verbatim>\<open>try\<close>, then the handler, which answers every
  exception with the redirect to the error page. A missing key raises \<^verbatim>\<open>KeyError\<close>; an
  e-mail that is no string matches no user; a family name that is no string, which this
  service never issues, counts as raised where it would reach the store.
\<close>

definition error_page :: string where
  "error_page = ''https://family.futurelink.zip/error?message=Invalid+or+expired+link''"

definition magic_login_try ::
  "string \<Rightarrow> token \<Rightarrow> datetime \<Rightarrow> database \<Rightarrow> (raised + response) \<times> database" where
  "magic_login_try jwt_secret tok now db =
     (case verify_verification_token jwt_secret tok now of
        None \<Rightarrow> (Inl (HTTPExc 400), db)
      | Some payload \<Rightarrow>
          (case map_of payload ''email'' of
             None \<Rightarrow> (Inl PyException, db)
           | Some (JStr email) \<Rightarrow>
               (case map_of payload ''family_name'' of
                  None \<Rightarrow> (Inl PyException, db)
                | Some family \<Rightarrow>
                    (case get_user_by_email db email of
                       None \<Rightarrow> (Inl (HTTPExc 404), db)
                     | Some user \<Rightarrow>
                         (case family of
                            JStr family_name \<Rightarrow>
                              let user_families = get_user_families db (u_id user) in
                              (case (if family_name \<notin> set user_families
                                     then (case grant_family_access (u_id user) family_name
                                                  ''magic_link'' now db of
                                             None \<Rightarrow> None
                                           | Some (_, db1) \<Rightarrow>
                                               Some (user_families @ [family_name], db1))
                                     else Some (user_families, db)) of
                                 None \<Rightarrow> (Inl PyException, db)
                               | Some (all_families, db1) \<Rightarrow>
                                   let jwt_token =
                                         create_jwt_token jwt_secret (u_id user) email
                                           (Some all_families) 24 now;
                                       db2 = stamp_user (u_id user) now db1
                                   in (Inr (RedirectResponse
                                              (''https://family.futurelink.zip/families/''
                                                 @ family_name)
                                              (Some jwt_token)),
                                       db2))
                          | _ \<Rightarrow> (Inl PyException, db))))
           | Some _ \<Rightarrow>
               (case map_of payload ''family_name'' of
                  None \<Rightarrow> (Inl PyException, db)
                | Some _ \<Rightarrow> (Inl (HTTPExc 404), db))))"

definition magic_login :: "string \<Rightarrow> token \<Rightarrow> datetime \<Rightarrow> database \<Rightarrow> response \<times> database" where
  "magic_login jwt_secret tok now db =
     (case magic_login_try jwt_secret tok now db of
        (Inl _, db') \<Rightarrow> (RedirectResponse error_page None, db')
      | (Inr r, db') \<Rightarrow> (r, db'))"

text \<open>
  \<^verbatim>\<open>record_consent\<close>, the route: the family is checked against the allow-list read from
  \<open>env\<close> before the audit row is written for the token's \<^verbatim>\<open>user_id\<close>.
\<close>

definition record_consent ::
  "string option \<Rightarrow> string \<Rightarrow> bool \<Rightarrow> bool \<Rightarrow> string option \<Rightarrow> string option \<Rightarrow> payload option
     \<Rightarrow> datetime \<Rightarrow> database \<Rightarrow> response \<times> database" where
  "record_consent env family marketing_consent terms_accepted client_host user_agent user
       now db =
     (case user of
        None \<Rightarrow> (HTTPException 401, db)
      | Some current_user \<Rightarrow>
          if \<not> is_valid_family env family then (HTTPException 400, db)
          else
            (case map_of current_user ''user_id'' of
               Some (JInt user_id) \<Rightarrow>
                 (case db_record_consent user_id family marketing_consent terms_accepted
                         client_host user_agent now db of
                    None \<Rightarrow> (HTTPException 500, db)
                  | Some (_, db1) \<Rightarrow>
                      (JSONResponse
                         [(''message'', JStr ''Consent recorded''),
                          (''family'', JStr family),
                          (''marketing_consent'', JBool marketing_consent),
                          (''terms_accepted'', JBool terms_accepted)]
                         None,
                       db1))
             | _ \<Rightarrow> (HTTPException 500, db)))"

section \<open>Request sequences and concrete stores\<close>

text \<open>
  A sequence of redemption requests for one invitation code, each with its user and its
  clock reading, served one after the other; the list of the outcomes, up to the first
  request that raises.
\<close>

fun redeem_all :: "string \<Rightarrow> (int \<times> datetime) list \<Rightarrow> database \<Rightarrow> bool list \<times> database" where
  "redeem_all code [] db = ([], db)"
| "redeem_all code ((user_id, now) # rest) db =
     (case use_invitation_code code user_id now db of
        None \<Rightarrow> ([], db)
      | Some (ok, db1) \<Rightarrow>
          (case redeem_all code rest db1 of (oks, db2) \<Rightarrow> (ok # oks, db2)))"

text \<open>The stores and identities the examples below run on.\<close>

definition example_identity :: user_info where
  "example_identity =
     \<lparr>ui_google_id = ''g-1'', ui_email = ''a@x.com'', ui_name = ''A'', ui_picture = None,
      ui_email_verified = True\<rparr>"

definition example_provider :: "string \<Rightarrow> user_info option" where
  "example_provider code = Some example_identity"

definition example_user :: user where
  "example_user =
     \<lparr>u_id = 1, u_email = ''user@x.com'', u_google_id = ''g-7'', u_name = ''User'',
      u_picture_url = None, u_verified_at = None, u_created_at = 0, u_last_login = None,
      u_is_active = True\<rparr>"

definition one_user_db :: database where
  "one_user_db = empty_database\<lparr>users := [example_user]\<rparr>"

definition bull_grant :: "int \<Rightarrow> family_access" where
  "bull_grant i =
     \<lparr>fa_id = i, fa_user_id = 1, fa_family_name = ''bull'', fa_granted_at = 0,
      fa_granted_by = ''email_verification'', fa_is_active = True\<rparr>"

definition two_grants_db :: database where
  "two_grants_db = one_user_db\<lparr>family_access_rows := [bull_grant 1, bull_grant 2]\<rparr>"

definition zero_limit_code :: family_invitation_code where
  "zero_limit_code =
     \<lparr>ic_id = 1, ic_code = ''bullABCD1234'', ic_family_name = ''bull'',
      ic_created_by_user_id = 1, ic_created_at = 0, ic_expires_at = None,
      ic_max_uses = Some 0, ic_current_uses = 0, ic_is_active = True,
      ic_description = None\<rparr>"

definition zero_limit_db :: database where
  "zero_limit_db = one_user_db\<lparr>family_invitation_codes := [zero_limit_code]\<rparr>"

definition example_session :: payload where
  "example_session = [(''user_id'', JInt 1), (''email'', JStr ''user@x.com'')]"

definition example_magic_token :: token where
  "example_magic_token = create_verification_token ''k'' ''user@x.com'' ''jones'' (Some 1) 0"

section \<open>Helper facts\<close>

lemma numeric_date_le: "numeric_date t * 1000000 \<le> t"
proof -
  have "t - t mod 1000000 = t div 1000000 * 1000000"
    by (rule minus_mod_eq_div_mult)
  moreover have "0 \<le> t mod 1000000"
    by simp
  ultimately show ?thesis
    unfolding numeric_date_def by linarith
qed

lemma first_field_no_sep: "c \<notin> set (takeWhile (\<lambda>x. x \<noteq> c) s)"
  by (auto dest: set_takeWhileD)

lemma startswith_signup_has_colon: "startswith s ''signup:'' \<Longrightarrow> CHR '':'' \<in> set s"
proof -
  assume "startswith s ''signup:''"
  then have eq: "take (length ''signup:'') s = ''signup:''"
    unfolding startswith_def .
  have "CHR '':'' \<in> set ''signup:''" by simp
  then have "CHR '':'' \<in> set (take (length ''signup:'') s)"
    by (simp only: eq)
  then show ?thesis by (rule in_set_takeD)
qed

lemma exchange_family_name_no_colon:
  assumes "exchange_code_for_tokens idp code state = Some r" and "xr_family_name r = Some f"
  shows "CHR '':'' \<notin> set f"
  using assms first_field_no_sep [of "CHR '':''" state]
  by (auto simp: exchange_code_for_tokens_def numeral_eq_Suc
      split: if_splits option.splits list.splits)

lemma find_map_preserved:
  assumes "\<And>x. P (f x) = P x"
  shows "find P (map f xs) = map_option f (find P xs)"
  using assms by (induction xs) auto

lemma find_Some_member: "find P xs = Some x \<Longrightarrow> x \<in> set xs \<and> P x"
  by (induction xs) (auto split: if_splits)

lemma grant_family_access_effect:
  "grant_family_access u f g now db = Some (a, db1) \<Longrightarrow> users db1 = users db
     \<and> family_invitation_codes db1 = family_invitation_codes db
     \<and> user_consent_rows db1 = user_consent_rows db
     \<and> family_access_rows db1 = family_access_rows db @ [a]
     \<and> fa_user_id a = u \<and> fa_family_name a = f \<and> fa_is_active a"
  by (auto simp: grant_family_access_def Let_def split: if_splits)

lemma grant_family_access_succeeds:
  "user_exists db u \<Longrightarrow> \<exists>a db1. grant_family_access u f g now db = Some (a, db1)"
  by (simp add: grant_family_access_def Let_def)

lemma create_invitation_code_effect:
  "create_invitation_code u f d m x rnd now db = Some (c, db1) \<Longrightarrow>
     users db1 = users db
     \<and> family_access_rows db1 = family_access_rows db
     \<and> user_consent_rows db1 = user_consent_rows db
     \<and> c = lower f @ rnd
     \<and> (\<exists>row. family_invitation_codes db1 = family_invitation_codes db @ [row]
            \<and> ic_family_name row = f \<and> ic_code row = c)"
  by (auto simp: create_invitation_code_def Let_def split: if_splits)

lemma db_record_consent_effect:
  "db_record_consent u f mc ta ip ua now db = Some (c, db1) \<Longrightarrow>
     users db1 = users db
     \<and> family_access_rows db1 = family_access_rows db
     \<and> family_invitation_codes db1 = family_invitation_codes db
     \<and> user_consent_rows db1 = user_consent_rows db @ [c]
     \<and> uc_family_name c = f \<and> uc_user_id c = u"
  by (auto simp: db_record_consent_def Let_def split: if_splits)

lemma get_user_by_email_exists:
  "get_user_by_email db email = Some user \<Longrightarrow> user_exists db (u_id user)"
  using find_Some_member [of "\<lambda>u. u_email u = email" "users db" user]
  by (auto simp: get_user_by_email_def user_exists_def)

lemma get_user_by_email_stamp_user:
  "get_user_by_email db email = Some user \<Longrightarrow>
     \<exists>user'. get_user_by_email (stamp_user i now db) email = Some user'"
proof -
  assume a: "get_user_by_email db email = Some user"
  let ?f = "\<lambda>u. if u_id u = i
                then u\<lparr>u_verified_at := Some now, u_last_login := Some now\<rparr> else u"
  have "find (\<lambda>u. u_email u = email) (map ?f (users db))
      = map_option ?f (find (\<lambda>u. u_email u = email) (users db))"
    by (rule find_map_preserved) simp
  then show ?thesis
    using a by (simp add: get_user_by_email_def stamp_user_def)
qed

section \<open>The OAuth callback\<close>

text \<open>
  What the identity exchange hands back as \<^verbatim>\<open>family_name\<close> is the part of the state
  before its first colon, so it holds no colon and never starts with \<^verbatim>\<open>signup:\<close>:
  the callback's \<^verbatim>\<open>try\<close> body raises on every input, before any write.
\<close>

lemma oauth_callback_try_raises:
  "\<exists>e. oauth_callback_try k idp code state now db = (Inl e, db)"
proof (cases "exchange_code_for_tokens idp code state")
  case None
  then show ?thesis by (simp add: oauth_callback_try_def)
next
  case (Some r)
  show ?thesis
  proof (cases "xr_family_name r")
    case None
    with Some show ?thesis by (simp add: oauth_callback_try_def Let_def)
  next
    case (Some f)
    with \<open>exchange_code_for_tokens idp code state = Some r\<close>
    have "\<not> startswith f ''signup:''"
      using exchange_family_name_no_colon startswith_signup_has_colon by blast
    with Some \<open>exchange_code_for_tokens idp code state = Some r\<close> show ?thesis
      by (simp add: oauth_callback_try_def Let_def)
  qed
qed

lemma oauth_callback_never_accepts:
  "oauth_callback k idp code state now db = (HTTPException 500, db)"
  using oauth_callback_try_raises [of k idp code state now db]
  by (auto simp: oauth_callback_def)

text \<open>
  C1 (the code departs from the claim). A signup started for \<^verbatim>\<open>a@x.com\<close>, answered by
  the provider with the verified identity of \<^verbatim>\<open>a@x.com\<close>: with the state the
  authorization URL carries, and with the state \<^verbatim>\<open>signup:a@x.com:n0nce\<close> itself, the
  callback answers status 500 and creates no user, where the claim has it accept the
  request and redirect to the family-selection page.
\<close>

theorem oauth_callback_rejects_matching_signup:
  "start_signup ''a@x.com'' ''n0nce'' = (''signup:a@x.com:n0nce'', ''signup:signup:a@x.com:n0nce'')
   \<and> oauth_callback ''k'' example_provider ''code'' ''signup:signup:a@x.com:n0nce'' 5
         empty_database = (HTTPException 500, empty_database)
   \<and> oauth_callback ''k'' example_provider ''code'' ''signup:a@x.com:n0nce'' 5
         empty_database = (HTTPException 500, empty_database)"
  by code_simp

section \<open>Token expiry, round trip and purpose\<close>

text \<open>
  C2. A token whose \<^verbatim>\<open>exp\<close> lies in the past is refused by \<^verbatim>\<open>verify_jwt_token\<close> and by
  \<^verbatim>\<open>verify_verification_token\<close> (which serves the e-mail verification and the magic
  link alike), whatever key signed it: no payload is returned.
\<close>

theorem expired_token_rejected:
  assumes "map_of p ''exp'' = Some (JInt e)" and "e * 1000000 < now"
  shows "verify_jwt_token k (Signed k' p) now = None
       \<and> verify_verification_token k (Signed k' p) now = None"
proof -
  have "validate_exp p now = Some ExpiredSignatureError"
    using assms by (simp add: validate_exp_def)
  then have "\<exists>err. jwt_decode (Signed k' p) k now = Inl err"
    by (simp add: jwt_decode_def split: option.splits)
  then show ?thesis
    by (auto simp: verify_jwt_token_def verify_verification_token_def)
qed

text \<open>
  Witness: a correctly signed verification-shaped payload with \<^verbatim>\<open>exp = 100\<close>, presented
  one microsecond after second 100.
\<close>

theorem expired_token_rejected_witness:
  "map_of [(''type'', JStr ''email_verification''), (''exp'', JInt 100)] ''exp'' = Some (JInt 100)
   \<and> (100::int) * 1000000 < 100000001
   \<and> verify_jwt_token ''k''
        (Signed ''k'' [(''type'', JStr ''email_verification''), (''exp'', JInt 100)])
        100000001 = None
   \<and> verify_verification_token ''k''
        (Signed ''k'' [(''type'', JStr ''email_verification''), (''exp'', JInt 100)])
        100000001 = None"
  using expired_token_rejected
    [of "[(''type'', JStr ''email_verification''), (''exp'', JInt 100)]" 100 100000001
        "''k''" "''k''"]
  by simp

text \<open>
  C8. A session token issued at \<open>now\<close> and verified with the same key at a time \<open>t\<close> from
  \<open>now\<close> on and before its expiry yields a payload with the \<^verbatim>\<open>user_id\<close>, \<^verbatim>\<open>email\<close>
  and \<^verbatim>\<open>families\<close> it was issued for, and with \<^verbatim>\<open>iat\<close> and \<^verbatim>\<open>exp\<close> added.
\<close>

theorem session_token_roundtrip:
  assumes "now \<le> t" and "t < numeric_date (now + timedelta_hours h) * 1000000"
  shows "\<exists>p. verify_jwt_token k (create_jwt_token k uid email (Some fams) h now) t = Some p
           \<and> map_of p ''user_id'' = Some (JInt uid)
           \<and> map_of p ''email'' = Some (JStr email)
           \<and> map_of p ''families'' = Some (JList (map JStr fams))
           \<and> map_of p ''iat'' = Some (JInt (numeric_date now))
           \<and> map_of p ''exp'' = Some (JInt (numeric_date (now + timedelta_hours h)))"
proof -
  have iat: "\<not> t < numeric_date now * 1000000"
    using numeric_date_le [of now] assms(1) by linarith
  have exp1: "\<not> numeric_date (now + timedelta_hours h) * 1000000 \<le> t"
    using assms(2) by linarith
  have exp2: "\<not> numeric_date (now + timedelta_hours h) * 1000000 < t"
    using assms(2) by linarith
  show ?thesis
    using iat exp1 exp2
    by (simp add: verify_jwt_token_def create_jwt_token_def jwt_encode_def jwt_decode_def
        validate_iat_def validate_nbf_def validate_exp_def Let_def)
qed

theorem session_token_roundtrip_witness:
  "(1000000::int) \<le> 2000000
   \<and> 2000000 < numeric_date (1000000 + timedelta_hours 24) * 1000000
   \<and> (\<exists>p. verify_jwt_token ''k''
             (create_jwt_token ''k'' 7 ''a@x.com'' (Some [''bull'']) 24 1000000) 2000000 = Some p
         \<and> map_of p ''user_id'' = Some (JInt 7)
         \<and> map_of p ''email'' = Some (JStr ''a@x.com'')
         \<and> map_of p ''families'' = Some (JList (map JStr [''bull'']))
         \<and> map_of p ''iat'' = Some (JInt (numeric_date 1000000))
         \<and> map_of p ''exp'' = Some (JInt (numeric_date (1000000 + timedelta_hours 24))))"
  using session_token_roundtrip [of 1000000 2000000 24 "''k''" 7 "''a@x.com''" "[''bull'']"]
  by (simp add: numeric_date_def timedelta_hours_def)

text \<open>
  C9. \<^verbatim>\<open>verify_jwt_token\<close> never reads the \<^verbatim>\<open>type\<close> claim: a token made by
  \<^verbatim>\<open>create_verification_token\<close> (tagged \<^verbatim>\<open>email_verification\<close>, thirty minutes, no
  \<^verbatim>\<open>families\<close>) is accepted by it, and so by \<^verbatim>\<open>get_current_user\<close>, as a session
  payload at any time from its issue on and before its expiry.
\<close>

theorem verification_token_accepted_as_session:
  assumes "now \<le> t" and "t < numeric_date (now + timedelta_minutes 30) * 1000000"
  shows "\<exists>p. verify_jwt_token k (create_verification_token k email fam uid now) t = Some p
           \<and> get_current_user k (Some (create_verification_token k email fam uid now)) t
               = Some p
           \<and> map_of p ''type'' = Some (JStr ''email_verification'')
           \<and> map_of p ''families'' = None
           \<and> map_of p ''email'' = Some (JStr email)"
proof -
  have iat: "\<not> t < numeric_date now * 1000000"
    using numeric_date_le [of now] assms(1) by linarith
  have exp1: "\<not> numeric_date (now + timedelta_minutes 30) * 1000000 \<le> t"
    using assms(2) by linarith
  have exp2: "\<not> numeric_date (now + timedelta_minutes 30) * 1000000 < t"
    using assms(2) by linarith
  show ?thesis
    using iat exp1 exp2
    by (simp add: get_current_user_def verify_jwt_token_def create_verification_token_def
        jwt_encode_def jwt_decode_def validate_iat_def validate_nbf_def validate_exp_def
        Let_def)
qed

theorem verification_token_accepted_as_session_witness:
  "(1000000::int) \<le> 2000000
   \<and> 2000000 < numeric_date (1000000 + timedelta_minutes 30) * 1000000
   \<and> (\<exists>p. verify_jwt_token ''k''
             (create_verification_token ''k'' ''user@x.com'' ''jones'' None 1000000) 2000000
             = Some p
         \<and> get_current_user ''k''
             (Some (create_verification_token ''k'' ''user@x.com'' ''jones'' None 1000000))
             2000000 = Some p
         \<and> map_of p ''type'' = Some (JStr ''email_verification'')
         \<and> map_of p ''families'' = None
         \<and> map_of p ''email'' = Some (JStr ''user@x.com''))"
  using verification_token_accepted_as_session
    [of 1000000 2000000 "''k''" "''user@x.com''" "''jones''" None]
  by (simp add: numeric_date_def timedelta_minutes_def)

section \<open>The access store\<close>

text \<open>
  C3 as stated fails: after two active grants of \<^verbatim>\<open>bull\<close> to user 1, both produced by
  \<^verbatim>\<open>grant_family_access\<close>, \<^verbatim>\<open>get_user_families\<close> returns the name twice.
\<close>

theorem get_user_families_repeats_family:
  "create_user ''user@x.com'' ''g-7'' ''User'' None 0 empty_database
     = Some (example_user, one_user_db)
   \<and> grant_family_access 1 ''bull'' ''email_verification'' 0 one_user_db
        = Some (bull_grant 1, one_user_db\<lparr>family_access_rows := [bull_grant 1]\<rparr>)
   \<and> grant_family_access 1 ''bull'' ''email_verification'' 0
        (one_user_db\<lparr>family_access_rows := [bull_grant 1]\<rparr>)
        = Some (bull_grant 2, two_grants_db)
   \<and> get_user_families two_grants_db 1 = [''bull'', ''bull'']
   \<and> \<not> distinct (get_user_families two_grants_db 1)"
  by code_simp

text \<open>
  C3 (amended). \<^verbatim>\<open>get_user_families\<close> returns one name per active grant row of the
  user, without removing repetitions: a family name occurs in the result as often as the
  user has active grant rows for that family, and the result is as long as the user's
  active grant rows are many.
\<close>

theorem get_user_families_one_per_row:
  "count_list (get_user_families db user_id) f
     = length (filter (\<lambda>r. fa_user_id r = user_id \<and> fa_is_active r \<and> fa_family_name r = f)
         (family_access_rows db))
   \<and> length (get_user_families db user_id)
     = length (filter (\<lambda>r. fa_user_id r = user_id \<and> fa_is_active r) (family_access_rows db))"
proof -
  have "count_list
          (map fa_family_name (filter (\<lambda>r. fa_user_id r = user_id \<and> fa_is_active r) rows)) f
     = length
         (filter (\<lambda>r. fa_user_id r = user_id \<and> fa_is_active r \<and> fa_family_name r = f) rows)"
    for rows
    by (induction rows) auto
  then show ?thesis
    by (simp add: get_user_families_def)
qed

text \<open>
  A code that is missing or inactive, expired, or used up against a limit other than 0
  is refused and the store stays as it was.
\<close>

lemma use_invitation_code_rejects:
  assumes "get_invitation_code db code = None
         \<or> (\<exists>invitation. get_invitation_code db code = Some invitation
              \<and> ((\<exists>e. ic_expires_at invitation = Some e \<and> e < now)
                 \<or> (\<exists>m. ic_max_uses invitation = Some m \<and> m \<noteq> 0
                        \<and> ic_current_uses invitation \<ge> m)))"
  shows "use_invitation_code code user_id now db = Some (False, db)"
  using assms
  by (auto simp: use_invitation_code_def get_invitation_code_def)

text \<open>
  C4 (the code departs from the claim). An active, unexpired code created with
  \<^verbatim>\<open>max_uses = 0\<close> has \<^verbatim>\<open>current_uses >= max_uses\<close> from the start, so the claim has
  its redemption fail and leave the store unchanged. \<^verbatim>\<open>use_invitation_code\<close> returns
  \<^verbatim>\<open>True\<close>, inserts the grant and raises the counter to 1, and the join-family flow
  answers with the success body instead of status 400.
\<close>

theorem use_invitation_code_zero_limit_redeems:
  "create_invitation_code 1 ''bull'' None (Some 0) None ''ABCD1234'' 0 one_user_db
     = Some (''bullABCD1234'', zero_limit_db)
   \<and> ic_max_uses zero_limit_code = Some 0
   \<and> ic_current_uses zero_limit_code \<ge> 0
   \<and> use_invitation_code ''bullABCD1234'' 1 10 zero_limit_db
     = Some (True,
         zero_limit_db
           \<lparr>family_access_rows :=
              [\<lparr>fa_id = 1, fa_user_id = 1, fa_family_name = ''bull'', fa_granted_at = 10,
                fa_granted_by = ''invitation_bullABCD1234'', fa_is_active = True\<rparr>],
            family_invitation_codes := [zero_limit_code\<lparr>ic_current_uses := 1\<rparr>]\<rparr>)
   \<and> join_family_with_code ''k'' ''bullABCD1234'' (Some example_session) 10 zero_limit_db
     = (JSONResponse
          [(''message'', JStr ''Successfully joined family''),
           (''family_name'', JStr ''bull''),
           (''invitation_code'', JStr ''bullABCD1234'')]
          (Some (create_verification_token ''k'' ''user@x.com'' ''bull'' (Some 1) 10)),
        zero_limit_db
          \<lparr>family_access_rows :=
             [\<lparr>fa_id = 1, fa_user_id = 1, fa_family_name = ''bull'', fa_granted_at = 10,
               fa_granted_by = ''invitation_bullABCD1234'', fa_is_active = True\<rparr>],
           family_invitation_codes := [zero_limit_code\<lparr>ic_current_uses := 1\<rparr>]\<rparr>)"
  by code_simp

text \<open>
  One redemption of a code whose limit is 0: it succeeds for an existing user while the
  code is not expired, and leaves the code active with its limit and expiry as before.
\<close>

lemma use_invitation_code_zero_limit_step:
  assumes found: "get_invitation_code db code = Some invitation"
    and zero: "ic_max_uses invitation = Some 0"
    and fresh: "\<forall>e. ic_expires_at invitation = Some e \<longrightarrow> \<not> e < now"
    and user: "user_exists db uid"
  shows "\<exists>db' invitation'. use_invitation_code code uid now db = Some (True, db')
           \<and> get_invitation_code db' code = Some invitation'
           \<and> ic_max_uses invitation' = Some 0
           \<and> ic_expires_at invitation' = ic_expires_at invitation
           \<and> ic_current_uses invitation' = ic_current_uses invitation + 1
           \<and> users db' = users db"
proof -
  obtain a db1 where g:
    "grant_family_access uid (ic_family_name invitation) (''invitation_'' @ code) now db
       = Some (a, db1)"
    using grant_family_access_succeeds [OF user] by blast
  let ?f = "\<lambda>r. if ic_id r = ic_id invitation
                then r\<lparr>ic_current_uses := ic_current_uses invitation + 1\<rparr> else r"
  let ?db' = "db1\<lparr>family_invitation_codes := map ?f (family_invitation_codes db1)\<rparr>"
  have same: "family_invitation_codes db1 = family_invitation_codes db" "users db1 = users db"
    using grant_family_access_effect [OF g] by simp_all
  have notexp: "\<not> (case ic_expires_at invitation of None \<Rightarrow> False | Some e \<Rightarrow> e < now)"
    using fresh by (simp split: option.splits)
  have use: "use_invitation_code code uid now db = Some (True, ?db')"
    using found zero notexp g
    by (simp add: use_invitation_code_def get_invitation_code_def)
  have "find (\<lambda>r. ic_code r = code \<and> ic_is_active r) (map ?f (family_invitation_codes db))
      = map_option ?f
          (find (\<lambda>r. ic_code r = code \<and> ic_is_active r) (family_invitation_codes db))"
    by (rule find_map_preserved) simp
  then have "get_invitation_code ?db' code = Some (?f invitation)"
    using found same by (simp add: get_invitation_code_def)
  then show ?thesis
    using use zero same by auto
qed

text \<open>
  C10. An active code whose \<^verbatim>\<open>max_uses\<close> is 0 is never exhausted: however many
  redemption requests are served in a row, by existing users and not after the code's
  expiry, every one of them succeeds, and the use counter, which starts at or above the
  limit, rises by one with each.
\<close>

theorem zero_max_uses_is_unlimited:
  assumes "get_invitation_code db code = Some invitation"
    and "ic_max_uses invitation = Some 0"
    and "\<forall>(u, t) \<in> set reqs.
           user_exists db u \<and> (\<forall>e. ic_expires_at invitation = Some e \<longrightarrow> \<not> e < t)"
  shows "fst (redeem_all code reqs db) = replicate (length reqs) True
     \<and> (\<exists>invitation'. get_invitation_code (snd (redeem_all code reqs db)) code
                          = Some invitation'
            \<and> ic_max_uses invitation' = Some 0
            \<and> ic_current_uses invitation' = ic_current_uses invitation + int (length reqs))"
  using assms
proof (induction reqs arbitrary: db invitation)
  case Nil
  then show ?case by simp
next
  case (Cons req reqs)
  obtain u t where req: "req = (u, t)" by (cases req)
  from Cons.prems(3) req
  have here: "user_exists db u" "\<forall>e. ic_expires_at invitation = Some e \<longrightarrow> \<not> e < t"
    by auto
  from use_invitation_code_zero_limit_step [OF Cons.prems(1) Cons.prems(2) here(2) here(1)]
  obtain db' invitation' where step:
      "use_invitation_code code u t db = Some (True, db')"
      "get_invitation_code db' code = Some invitation'"
      "ic_max_uses invitation' = Some 0"
      "ic_expires_at invitation' = ic_expires_at invitation"
      "ic_current_uses invitation' = ic_current_uses invitation + 1"
      "users db' = users db"
    by blast
  have rest: "\<forall>(u, t) \<in> set reqs.
                user_exists db' u \<and> (\<forall>e. ic_expires_at invitation' = Some e \<longrightarrow> \<not> e < t)"
    using Cons.prems(3) step(4) step(6) by (auto simp: user_exists_def)
  from Cons.IH [OF step(2) step(3) rest]
  obtain invitation'' where ih:
      "fst (redeem_all code reqs db') = replicate (length reqs) True"
      "get_invitation_code (snd (redeem_all code reqs db')) code = Some invitation''"
      "ic_max_uses invitation'' = Some 0"
      "ic_current_uses invitation'' = ic_current_uses invitation' + int (length reqs)"
    by blast
  show ?case
    using req step(1) step(5) ih by (auto split: prod.splits)
qed

text \<open>Witness: three redemptions in a row of the code with limit 0, all successful.\<close>

theorem zero_max_uses_is_unlimited_witness:
  "get_invitation_code zero_limit_db ''bullABCD1234'' = Some zero_limit_code
   \<and> ic_max_uses zero_limit_code = Some 0
   \<and> fst (redeem_all ''bullABCD1234'' [(1, 10), (1, 20), (1, 30)] zero_limit_db)
       = [True, True, True]
   \<and> (\<exists>invitation'.
         get_invitation_code
           (snd (redeem_all ''bullABCD1234'' [(1, 10), (1, 20), (1, 30)] zero_limit_db))
           ''bullABCD1234'' = Some invitation'
         \<and> ic_max_uses invitation' = Some 0
         \<and> ic_current_uses invitation' = 3)"
proof -
  have a: "get_invitation_code zero_limit_db ''bullABCD1234'' = Some zero_limit_code"
    by code_simp
  have b: "ic_max_uses zero_limit_code = Some 0"
    by code_simp
  have c: "\<forall>(u, t) \<in> set [(1, 10), (1, 20), (1::int, 30::int)].
             user_exists zero_limit_db u
             \<and> (\<forall>e. ic_expires_at zero_limit_code = Some e \<longrightarrow> \<not> e < t)"
    by (simp add: user_exists_def zero_limit_db_def one_user_db_def example_user_def
        zero_limit_code_def)
  have d: "ic_current_uses zero_limit_code = 0"
    by code_simp
  show ?thesis
    using zero_max_uses_is_unlimited [OF a b c] a b d by (simp add: numeral_eq_Suc)
qed

section \<open>Family names the flows persist\<close>

lemma grant_after_create_invitation_code:
  assumes "create_invitation_code u f d m x rnd now db = Some (c, db1)"
  shows "\<exists>a db2. grant_family_access u f' g now db1 = Some (a, db2)"
proof -
  have "user_exists db u"
    using assms by (auto simp: create_invitation_code_def Let_def split: if_splits)
  moreover have "users db1 = users db"
    using create_invitation_code_effect [OF assms] by simp
  ultimately have "user_exists db1 u"
    by (simp add: user_exists_def)
  then show ?thesis
    by (simp add: grant_family_access_def Let_def)
qed

text \<open>
  Create-family either leaves the store as it was, or writes one invitation code and one
  grant, both for the lowercased and trimmed name of at least 2 characters.
\<close>

lemma create_family_code_effect:
  assumes run: "create_family_code k name desc user rnd sent now db = (resp, db2)"
  shows "db2 = db
       \<or> (2 \<le> length (strip (lower name))
          \<and> (\<exists>u d c db1 a.
                create_invitation_code u (strip (lower name)) d None None rnd now db
                  = Some (c, db1)
                \<and> grant_family_access u (strip (lower name)) ''family_creator'' now db1
                  = Some (a, db2)))"
proof (cases user)
  case None
  with run show ?thesis by (simp add: create_family_code_def)
next
  case (Some current_user)
  note user = this
  show ?thesis
  proof (cases "strip (lower name) = [] \<or> length (strip (lower name)) < 2")
    case True
    with run user show ?thesis by (simp add: create_family_code_def Let_def)
  next
    case False
    note long = this
    show ?thesis
    proof (cases "map_of current_user ''email''")
      case None
      with run user long show ?thesis by (simp add: create_family_code_def Let_def)
    next
      case (Some j)
      note email = this
      show ?thesis
      proof (cases "\<exists>e u. j = JStr e \<and> get_user_by_email db e = Some u")
        case False
        with run user long email show ?thesis
          by (cases j; cases "get_user_by_email db (case j of JStr e \<Rightarrow> e | _ \<Rightarrow> [])")
            (simp_all add: create_family_code_def Let_def)
      next
        case True
        then obtain e u where j: "j = JStr e" and found: "get_user_by_email db e = Some u"
          by blast
        let ?d = "Some (case desc of
                          None \<Rightarrow> title (strip (lower name)) @ '' Family''
                        | Some d \<Rightarrow>
                            if d = [] then title (strip (lower name)) @ '' Family'' else d)"
        show ?thesis
        proof (cases "create_invitation_code (u_id u) (strip (lower name)) ?d None None rnd
                        now db")
          case None
          with run user long email j found show ?thesis
            by (simp add: create_family_code_def Let_def)
        next
          case (Some r)
          obtain c db1 where r: "r = (c, db1)" by (cases r)
          from grant_after_create_invitation_code
                 [of "u_id u" "strip (lower name)" ?d None None rnd now db c db1
                     "strip (lower name)" "''family_creator''"]
            Some r
          obtain a db2' where g:
            "grant_family_access (u_id u) (strip (lower name)) ''family_creator'' now db1
               = Some (a, db2')"
            by blast
          have "db2 = db2'"
            using run user long email j found Some r g
            by (simp add: create_family_code_def Let_def)
          with long Some r g show ?thesis
            by (intro disjI2 conjI) (simp, blast)
        qed
      qed
    qed
  qed
qed

text \<open>
  C5 as stated fails: with the default allow-list, create-family for the requested name
  \<^verbatim>\<open>Smith\<close> succeeds and persists \<^verbatim>\<open>smith\<close>, which is not on the list, in the
  creator's grant and in the invitation code.
\<close>

theorem create_family_outside_allow_list:
  "get_valid_families None = [''bull'', ''north'', ''klingenberg'', ''herrman'']
   \<and> \<not> is_valid_family None ''smith''
   \<and> fst (create_family_code ''k'' ''Smith'' None (Some example_session) ''ABCD1234'' True 10
             one_user_db)
       = JSONResponse
           [(''message'', JStr ''Family created successfully''),
            (''family_name'', JStr ''smith''),
            (''invitation_code'', JStr ''smithABCD1234''),
            (''email_sent'', JBool True)] None
   \<and> map fa_family_name (family_access_rows
         (snd (create_family_code ''k'' ''Smith'' None (Some example_session) ''ABCD1234'' True
                 10 one_user_db)))
       = [''smith'']
   \<and> map ic_family_name (family_invitation_codes
         (snd (create_family_code ''k'' ''Smith'' None (Some example_session) ''ABCD1234'' True
                 10 one_user_db)))
       = [''smith'']"
  by code_simp

text \<open>
  C5 (amended). The consent operation persists a family name only when it is on the
  allow-list: it writes no grant and no invitation code, and a consent row it appends
  carries the requested family, which is then valid. The create-family operation does
  not consult the allow-list: it writes no consent row, and when it writes at all it
  appends one invitation code and one grant, both for the lowercased and trimmed
  requested name, which has at least 2 characters.
\<close>

theorem persisted_family_names:
  "(record_consent env family mc ta host ua user now db = (resp_r, db_r) \<longrightarrow>
      family_access_rows db_r = family_access_rows db
      \<and> family_invitation_codes db_r = family_invitation_codes db
      \<and> (user_consent_rows db_r = user_consent_rows db
         \<or> (\<exists>row. user_consent_rows db_r = user_consent_rows db @ [row]
               \<and> uc_family_name row = family \<and> is_valid_family env family)))
   \<and> (create_family_code k name desc user rnd sent now db = (resp_c, db_c) \<longrightarrow>
      user_consent_rows db_c = user_consent_rows db
      \<and> ((family_invitation_codes db_c = family_invitation_codes db
           \<and> family_access_rows db_c = family_access_rows db)
         \<or> (\<exists>code_row grant.
               family_invitation_codes db_c = family_invitation_codes db @ [code_row]
               \<and> ic_family_name code_row = strip (lower name)
               \<and> family_access_rows db_c = family_access_rows db @ [grant]
               \<and> fa_family_name grant = strip (lower name)
               \<and> 2 \<le> length (strip (lower name)))))"
proof (intro conjI impI)
  assume a: "record_consent env family mc ta host ua user now db = (resp_r, db_r)"
  show "family_access_rows db_r = family_access_rows db"
    using a
    by (auto simp: record_consent_def split: option.splits if_splits json.splits
        dest: db_record_consent_effect)
  show "family_invitation_codes db_r = family_invitation_codes db"
    using a
    by (auto simp: record_consent_def split: option.splits if_splits json.splits
        dest: db_record_consent_effect)
  show "user_consent_rows db_r = user_consent_rows db
         \<or> (\<exists>row. user_consent_rows db_r = user_consent_rows db @ [row]
               \<and> uc_family_name row = family \<and> is_valid_family env family)"
    using a
    by (auto simp: record_consent_def split: option.splits if_splits json.splits
        dest: db_record_consent_effect)
next
  assume b: "create_family_code k name desc user rnd sent now db = (resp_c, db_c)"
  from create_family_code_effect [OF b]
  consider "db_c = db"
    | u d c db1 a where "2 \<le> length (strip (lower name))"
        "create_invitation_code u (strip (lower name)) d None None rnd now db = Some (c, db1)"
        "grant_family_access u (strip (lower name)) ''family_creator'' now db1 = Some (a, db_c)"
    by blast
  then have both: "user_consent_rows db_c = user_consent_rows db
      \<and> ((family_invitation_codes db_c = family_invitation_codes db
           \<and> family_access_rows db_c = family_access_rows db)
         \<or> (\<exists>code_row grant.
               family_invitation_codes db_c = family_invitation_codes db @ [code_row]
               \<and> ic_family_name code_row = strip (lower name)
               \<and> family_access_rows db_c = family_access_rows db @ [grant]
               \<and> fa_family_name grant = strip (lower name)
               \<and> 2 \<le> length (strip (lower name))))"
  proof cases
    case 1
    then show ?thesis by simp
  next
    case 2
    from create_invitation_code_effect [OF 2(2)] grant_family_access_effect [OF 2(3)] 2(1)
    show ?thesis by auto
  qed
  from both show "user_consent_rows db_c = user_consent_rows db" by simp
  from both show "(family_invitation_codes db_c = family_invitation_codes db
           \<and> family_access_rows db_c = family_access_rows db)
         \<or> (\<exists>code_row grant.
               family_invitation_codes db_c = family_invitation_codes db @ [code_row]
               \<and> ic_family_name code_row = strip (lower name)
               \<and> family_access_rows db_c = family_access_rows db @ [grant]
               \<and> fa_family_name grant = strip (lower name)
               \<and> 2 \<le> length (strip (lower name)))"
    by simp
qed

text \<open>
  Witness: consent for \<^verbatim>\<open>bull\<close>, which is on the default allow-list, and create-family
  for \<^verbatim>\<open>Smith\<close>, both by user 1; each appends its rows.
\<close>

theorem persisted_family_names_witness:
  "is_valid_family None ''bull''
   \<and> (\<exists>row. user_consent_rows
               (snd (record_consent None ''bull'' True True None None (Some example_session)
                       10 one_user_db))
             = user_consent_rows one_user_db @ [row]
          \<and> uc_family_name row = ''bull'')
   \<and> (\<exists>code_row grant.
         family_invitation_codes
           (snd (create_family_code ''k'' ''Smith'' None (Some example_session) ''ABCD1234''
                   True 10 one_user_db))
           = family_invitation_codes one_user_db @ [code_row]
         \<and> ic_family_name code_row = ''smith''
         \<and> family_access_rows
             (snd (create_family_code ''k'' ''Smith'' None (Some example_session) ''ABCD1234''
                     True 10 one_user_db))
           = family_access_rows one_user_db @ [grant]
         \<and> fa_family_name grant = ''smith'')"
proof -
  let ?rc = "record_consent None ''bull'' True True None None (Some example_session) 10
               one_user_db"
  let ?cf = "create_family_code ''k'' ''Smith'' None (Some example_session) ''ABCD1234'' True 10
               one_user_db"
  have rc: "?rc = (fst ?rc, snd ?rc)" and cf: "?cf = (fst ?cf, snd ?cf)"
    by simp_all
  have changed: "user_consent_rows (snd ?rc) \<noteq> user_consent_rows one_user_db"
    "family_invitation_codes (snd ?cf) \<noteq> family_invitation_codes one_user_db"
    by code_simp+
  have norm: "strip (lower ''Smith'') = ''smith''"
    by code_simp
  from persisted_family_names
         [where env = None and family = "''bull''" and mc = True and ta = True
            and host = None and ua = None and user = "Some example_session" and now = 10
            and db = one_user_db and resp_r = "fst ?rc" and db_r = "snd ?rc" and k = "''k''"
            and name = "''Smith''" and desc = None and rnd = "''ABCD1234''" and sent = True
            and resp_c = "fst ?cf" and db_c = "snd ?cf"]
  show ?thesis
    using rc cf changed norm by auto
qed

section \<open>Magic-link login\<close>

text \<open>
  C6. When the magic token fails verification, or verifies and carries an e-mail address
  that no user row has, \<^verbatim>\<open>magic_login\<close> answers with the redirect to the error page
  (no cookie, no error status) and the store is exactly as before: no user row and no
  grant is written.
\<close>

theorem magic_login_soft_failure:
  assumes "verify_verification_token k tok now = None
     \<or> (\<exists>p e. verify_verification_token k tok now = Some p
            \<and> map_of p ''email'' = Some (JStr e) \<and> get_user_by_email db e = None)"
  shows "magic_login k tok now db = (RedirectResponse error_page None, db)"
  using assms
  by (auto simp: magic_login_def magic_login_try_def split: option.splits)

text \<open>
  Witness: a token that is no signed token at all, and a valid token for
  \<^verbatim>\<open>user@x.com\<close> and family \<^verbatim>\<open>jones\<close> presented to a store without that user.
\<close>

theorem magic_login_soft_failure_witness:
  "verify_verification_token ''k'' (Malformed ''junk'') 1000000 = None
   \<and> magic_login ''k'' (Malformed ''junk'') 1000000 one_user_db
       = (RedirectResponse error_page None, one_user_db)
   \<and> verify_verification_token ''k''
        (create_verification_token ''k'' ''user@x.com'' ''jones'' None 0) 1000000
       = Some (claims (create_verification_token ''k'' ''user@x.com'' ''jones'' None 0))
   \<and> map_of (claims (create_verification_token ''k'' ''user@x.com'' ''jones'' None 0)) ''email''
       = Some (JStr ''user@x.com'')
   \<and> get_user_by_email empty_database ''user@x.com'' = None
   \<and> magic_login ''k'' (create_verification_token ''k'' ''user@x.com'' ''jones'' None 0) 1000000
        empty_database
       = (RedirectResponse error_page None, empty_database)"
proof -
  have a: "verify_verification_token ''k'' (Malformed ''junk'') 1000000 = None"
    by code_simp
  have b: "verify_verification_token ''k''
             (create_verification_token ''k'' ''user@x.com'' ''jones'' None 0) 1000000
           = Some (claims (create_verification_token ''k'' ''user@x.com'' ''jones'' None 0))"
    by code_simp
  have c: "map_of (claims (create_verification_token ''k'' ''user@x.com'' ''jones'' None 0))
             ''email'' = Some (JStr ''user@x.com'')"
    by code_simp
  have d: "get_user_by_email empty_database ''user@x.com'' = None"
    by code_simp
  show ?thesis
    using magic_login_soft_failure [of "''k''" "Malformed ''junk''" 1000000 one_user_db]
      magic_login_soft_failure
        [of "''k''" "create_verification_token ''k'' ''user@x.com'' ''jones'' None 0" 1000000
            empty_database]
      a b c d
    by blast
qed

text \<open>
  C7 as stated fails: the magic token issued for \<^verbatim>\<open>user@x.com\<close> and family
  \<^verbatim>\<open>jones\<close> logs the user in at second 1, and the same token logs the user in again at
  second 2, on the store the first login left; both answers are the redirect to the family
  page with a session cookie.
\<close>

theorem magic_token_redeemed_twice:
  "fst (magic_login ''k'' example_magic_token 1000000 one_user_db)
     = RedirectResponse ''https://family.futurelink.zip/families/jones''
         (Some (create_jwt_token ''k'' 1 ''user@x.com'' (Some [''jones'']) 24 1000000))
   \<and> fst (magic_login ''k'' example_magic_token 2000000
             (snd (magic_login ''k'' example_magic_token 1000000 one_user_db)))
     = RedirectResponse ''https://family.futurelink.zip/families/jones''
         (Some (create_jwt_token ''k'' 1 ''user@x.com'' (Some [''jones'']) 24 2000000))"
  by code_simp

lemma verification_token_verifies:
  assumes "t0 \<le> t" and "t < numeric_date (t0 + timedelta_minutes 30) * 1000000"
  shows "verify_verification_token k (create_verification_token k email fam uid t0) t
       = Some (claims (create_verification_token k email fam uid t0))"
proof -
  have iat: "\<not> t < numeric_date t0 * 1000000"
    using numeric_date_le [of t0] assms(1) by linarith
  have exp1: "\<not> numeric_date (t0 + timedelta_minutes 30) * 1000000 \<le> t"
    using assms(2) by linarith
  show ?thesis
    using iat exp1
    by (simp add: verify_verification_token_def create_verification_token_def
        jwt_encode_def jwt_decode_def validate_iat_def validate_nbf_def validate_exp_def
        Let_def)
qed

text \<open>
  A login with an unexpired magic token for the e-mail of an existing user succeeds, and
  the user is still there afterwards.
\<close>

lemma magic_login_succeeds:
  assumes user: "get_user_by_email db email = Some user"
    and "t0 \<le> t" and "t < numeric_date (t0 + timedelta_minutes 30) * 1000000"
  shows "\<exists>c db' user'. magic_login k (create_verification_token k email fam uid t0) t db
            = (RedirectResponse (''https://family.futurelink.zip/families/'' @ fam) (Some c),
               db')
          \<and> get_user_by_email db' email = Some user'"
proof -
  let ?tok = "create_verification_token k email fam uid t0"
  have v: "verify_verification_token k ?tok t = Some (claims ?tok)"
    using assms(2,3) by (rule verification_token_verifies)
  have e: "map_of (claims ?tok) ''email'' = Some (JStr email)"
    and f: "map_of (claims ?tok) ''family_name'' = Some (JStr fam)"
    by (simp_all add: create_verification_token_def jwt_encode_def Let_def)
  obtain a db1 where g:
    "grant_family_access (u_id user) fam ''magic_link'' t db = Some (a, db1)"
    using grant_family_access_succeeds [OF get_user_by_email_exists [OF user]] by blast
  have u1: "get_user_by_email db1 email = Some user"
    using grant_family_access_effect [OF g] user by (simp add: get_user_by_email_def)
  show ?thesis
  proof (cases "fam \<in> set (get_user_families db (u_id user))")
    case True
    then show ?thesis
      using v e f user get_user_by_email_stamp_user [OF user, of "u_id user" t]
      by (auto simp: magic_login_def magic_login_try_def Let_def)
  next
    case False
    then show ?thesis
      using v e f user g get_user_by_email_stamp_user [OF u1, of "u_id user" t]
      by (auto simp: magic_login_def magic_login_try_def Let_def)
  qed
qed

text \<open>
  C7 (amended). A magic link is time-boxed but not single-use: for a magic token issued
  at \<open>t0\<close> for the e-mail of an existing user, a login at \<open>t1\<close> succeeds, and a further
  login with the same token at any later \<open>t2\<close> before the token's expiry, on the store
  the first login left, succeeds as well; both redirect to the family page and set a
  session cookie.
\<close>

theorem magic_token_redeemable_until_expiry:
  assumes "get_user_by_email db email = Some user"
    and "t0 \<le> t1" and "t1 \<le> t2"
    and "t2 < numeric_date (t0 + timedelta_minutes 30) * 1000000"
  shows "\<exists>c1 db1 c2 db2.
           magic_login k (create_verification_token k email fam uid t0) t1 db
             = (RedirectResponse (''https://family.futurelink.zip/families/'' @ fam) (Some c1),
                db1)
         \<and> magic_login k (create_verification_token k email fam uid t0) t2 db1
             = (RedirectResponse (''https://family.futurelink.zip/families/'' @ fam) (Some c2),
                db2)"
proof -
  have t1: "t1 < numeric_date (t0 + timedelta_minutes 30) * 1000000"
    using assms(3,4) by linarith
  from magic_login_succeeds [OF assms(1) assms(2) t1, of k fam uid]
  obtain c1 db1 user1 where first:
      "magic_login k (create_verification_token k email fam uid t0) t1 db
         = (RedirectResponse (''https://family.futurelink.zip/families/'' @ fam) (Some c1),
            db1)"
      "get_user_by_email db1 email = Some user1"
    by blast
  have t2: "t0 \<le> t2" using assms(2,3) by linarith
  from magic_login_succeeds [OF first(2) t2 assms(4), of k fam uid]
  obtain c2 db2 where
      "magic_login k (create_verification_token k email fam uid t0) t2 db1
         = (RedirectResponse (''https://family.futurelink.zip/families/'' @ fam) (Some c2),
            db2)"
    by blast
  with first(1) show ?thesis by blast
qed

theorem magic_token_redeemable_until_expiry_witness:
  "get_user_by_email one_user_db ''user@x.com'' = Some example_user
   \<and> (0::int) \<le> 1000000 \<and> (1000000::int) \<le> 2000000
   \<and> 2000000 < numeric_date (0 + timedelta_minutes 30) * 1000000
   \<and> (\<exists>c1 db1 c2 db2.
         magic_login ''k'' (create_verification_token ''k'' ''user@x.com'' ''jones'' (Some 1) 0)
             1000000 one_user_db
           = (RedirectResponse (''https://family.futurelink.zip/families/'' @ ''jones'')
                (Some c1), db1)
         \<and> magic_login ''k''
             (create_verification_token ''k'' ''user@x.com'' ''jones'' (Some 1) 0) 2000000 db1
           = (RedirectResponse (''https://family.futurelink.zip/families/'' @ ''jones'')
                (Some c2), db2))"
proof -
  have a: "get_user_by_email one_user_db ''user@x.com'' = Some example_user"
    by code_simp
  have b: "(0::int) \<le> 1000000" "(1000000::int) \<le> 2000000" by simp_all
  have c: "2000000 < numeric_date (0 + timedelta_minutes 30) * 1000000"
    by (simp add: numeric_date_def timedelta_minutes_def)
  show ?thesis
    using magic_token_redeemable_until_expiry [OF a b c, of "''k''" "''jones''" "Some 1"] a b c
    by blast
qed

end
